theory Spec2Isabelle
  imports Main "HOL-Library.Word"
begin

unbundle bit_operations_syntax

section \<open>Python values used by \<^verbatim>\<open>duzeszanse.py\<close>\<close>

text \<open>
  The script works on Python \<^verbatim>\<open>str\<close>, \<^verbatim>\<open>bytes\<close>, unbounded \<^verbatim>\<open>int\<close> and
  \<^verbatim>\<open>bool\<close>. A \<^verbatim>\<open>str\<close> is modelled as a \<open>string\<close> whose characters are the code
  points below 256 (every string literal of the script's data is ASCII), \<^verbatim>\<open>bytes\<close> as a
  list of 8-bit words and \<^verbatim>\<open>int\<close> as \<open>int\<close>.
\<close>

type_synonym byte = "8 word"

text \<open>
  The exceptions that can arise while the script runs. \<open>ValueError\<close> is what
  \<^verbatim>\<open>bytes.fromhex\<close> and \<^verbatim>\<open>int(_, 16)\<close> raise on malformed text; \<open>BadSignatureError\<close> is
  the class imported from \<^verbatim>\<open>ecdsa.keys\<close> (line 4); \<open>Other_Exception\<close> stands for any
  other subclass of \<^verbatim>\<open>Exception\<close> that a library call may raise, tagged by its message.
\<close>

datatype exn = BadSignatureError | ValueError | Other_Exception string

subsection \<open>\<^verbatim>\<open>bytes.fromhex\<close>\<close>

text \<open>
  The digit table of CPython (\<^verbatim>\<open>_PyLong_DigitValue\<close>) restricted to base 16: the value of
  a hexadecimal digit, in either case.
\<close>

definition hex_digit :: "char \<Rightarrow> nat option" where
  "hex_digit c =
     (let k = (of_char c :: nat) in
      if 48 \<le> k \<and> k \<le> 57 then Some (k - 48)
      else if 97 \<le> k \<and> k \<le> 102 then Some (k - 87)
      else if 65 \<le> k \<and> k \<le> 70 then Some (k - 55)
      else None)"

text \<open>
  \<^verbatim>\<open>Py_ISSPACE\<close>: the ASCII whitespace that \<^verbatim>\<open>bytes.fromhex\<close> skips (space, and the
  control characters 9 to 13).
\<close>

definition py_isspace :: "char \<Rightarrow> bool" where
  "py_isspace c = (let k = (of_char c :: nat) in k = 32 \<or> (9 \<le> k \<and> k \<le> 13))"

text \<open>
  \<^verbatim>\<open>bytes.fromhex(s)\<close>: whitespace is skipped before each byte, then two hexadecimal
  digits are read with nothing between them. Anything else raises \<^verbatim>\<open>ValueError\<close>.
\<close>

fun fromhex :: "string \<Rightarrow> exn + byte list" where
  "fromhex [] = Inr []"
| "fromhex [c] = (if py_isspace c then Inr [] else Inl ValueError)"
| "fromhex (c # d # cs) =
     (if py_isspace c then fromhex (d # cs)
      else
        (case hex_digit c of
           None \<Rightarrow> Inl ValueError
         | Some hi \<Rightarrow>
             (case hex_digit d of
                None \<Rightarrow> Inl ValueError
              | Some lo \<Rightarrow>
                  (case fromhex cs of
                     Inl e \<Rightarrow> Inl e
                   | Inr bs \<Rightarrow> Inr (of_nat (16 * hi + lo) # bs)))))"

subsection \<open>\<^verbatim>\<open>hashlib.sha256\<close>\<close>

text \<open>
  SHA-256 as FIPS 180-4 defines it, on 32-bit words: addition wraps modulo \<open>2 ^ 32\<close>.
\<close>

type_synonym u32 = "32 word"

definition rotr :: "nat \<Rightarrow> u32 \<Rightarrow> u32" where
  "rotr n x = drop_bit n x OR push_bit (32 - n) x"

definition Ch :: "u32 \<Rightarrow> u32 \<Rightarrow> u32 \<Rightarrow> u32" where
  "Ch x y z = (x AND y) XOR (NOT x AND z)"

definition Maj :: "u32 \<Rightarrow> u32 \<Rightarrow> u32 \<Rightarrow> u32" where
  "Maj x y z = (x AND y) XOR (x AND z) XOR (y AND z)"

definition Sigma0 :: "u32 \<Rightarrow> u32" where
  "Sigma0 x = rotr 2 x XOR rotr 13 x XOR rotr 22 x"

definition Sigma1 :: "u32 \<Rightarrow> u32" where
  "Sigma1 x = rotr 6 x XOR rotr 11 x XOR rotr 25 x"

definition sigma0 :: "u32 \<Rightarrow> u32" where
  "sigma0 x = rotr 7 x XOR rotr 18 x XOR drop_bit 3 x"

definition sigma1 :: "u32 \<Rightarrow> u32" where
  "sigma1 x = rotr 17 x XOR rotr 19 x XOR drop_bit 10 x"

definition K256 :: "u32 list" where
  "K256 =
    [0x428A2F98, 0x71374491, 0xB5C0FBCF, 0xE9B5DBA5, 0x3956C25B, 0x59F111F1, 0x923F82A4, 0xAB1C5ED5,
     0xD807AA98, 0x12835B01, 0x243185BE, 0x550C7DC3, 0x72BE5D74, 0x80DEB1FE, 0x9BDC06A7, 0xC19BF174,
     0xE49B69C1, 0xEFBE4786, 0x0FC19DC6, 0x240CA1CC, 0x2DE92C6F, 0x4A7484AA, 0x5CB0A9DC, 0x76F988DA,
     0x983E5152, 0xA831C66D, 0xB00327C8, 0xBF597FC7, 0xC6E00BF3, 0xD5A79147, 0x06CA6351, 0x14292967,
     0x27B70A85, 0x2E1B2138, 0x4D2C6DFC, 0x53380D13, 0x650A7354, 0x766A0ABB, 0x81C2C92E, 0x92722C85,
     0xA2BFE8A1, 0xA81A664B, 0xC24B8B70, 0xC76C51A3, 0xD192E819, 0xD6990624, 0xF40E3585, 0x106AA070,
     0x19A4C116, 0x1E376C08, 0x2748774C, 0x34B0BCB5, 0x391C0CB3, 0x4ED8AA4A, 0x5B9CCA4F, 0x682E6FF3,
     0x748F82EE, 0x78A5636F, 0x84C87814, 0x8CC70208, 0x90BEFFFA, 0xA4506CEB, 0xBEF9A3F7, 0xC67178F2]"

type_synonym sha_state = "u32 list"

definition H256 :: sha_state where
  "H256 =
    [0x6A09E667, 0xBB67AE85, 0x3C6EF372, 0xA54FF53A, 0x510E527F, 0x9B05688C, 0x1F83D9AB, 0x5BE0CD19]"

text \<open>
  Big-endian conversions between bytes and words: the 32-bit word of four bytes, the four
  bytes of a word, and the eight bytes of a 64-bit length.
\<close>

definition be_word :: "byte list \<Rightarrow> u32" where
  "be_word bs = foldl (\<lambda>a b. push_bit 8 a OR ucast b) 0 bs"

definition word_bytes :: "u32 \<Rightarrow> byte list" where
  "word_bytes w = [ucast (drop_bit 24 w), ucast (drop_bit 16 w), ucast (drop_bit 8 w), ucast w]"

definition length_bytes :: "64 word \<Rightarrow> byte list" where
  "length_bytes n = map (\<lambda>i. ucast (drop_bit (8 * (7 - i)) n)) [0..<8]"

text \<open>
  Padding: the byte \<open>0x80\<close>, zeros up to 56 modulo 64, and the bit length in 8 bytes.
\<close>

definition sha_pad :: "byte list \<Rightarrow> byte list" where
  "sha_pad m =
     m @ [0x80] @ replicate ((119 - length m mod 64) mod 64) 0
       @ length_bytes (word_of_nat (8 * length m))"

text \<open>The sixteen words of a 64-byte block, and the blocks of a padded message.\<close>

definition block_words :: "byte list \<Rightarrow> u32 list" where
  "block_words blk = map (\<lambda>i. be_word (take 4 (drop (4 * i) blk))) [0..<16]"

definition sha_blocks :: "byte list \<Rightarrow> byte list list" where
  "sha_blocks p = map (\<lambda>i. take 64 (drop (64 * i) p)) [0..<length p div 64]"

text \<open>
  The message schedule, newest word first: each further word is computed from the words
  2, 7, 15 and 16 places back.
\<close>

fun schedule_rev :: "nat \<Rightarrow> u32 list \<Rightarrow> u32 list" where
  "schedule_rev 0 w = w"
| "schedule_rev (Suc k) w =
     schedule_rev k ((sigma1 (w ! 1) + w ! 6 + sigma0 (w ! 14) + w ! 15) # w)"

definition schedule :: "byte list \<Rightarrow> u32 list" where
  "schedule blk = rev (schedule_rev 48 (rev (block_words blk)))"

fun sha_round :: "sha_state \<Rightarrow> u32 \<times> u32 \<Rightarrow> sha_state" where
  "sha_round [a, b, c, d, e, f, g, h] (k, w) =
     (let t1 = h + Sigma1 e + Ch e f g + k + w;
          t2 = Sigma0 a + Maj a b c
      in [t1 + t2, a, b, c, d + t1, e, f, g])"
| "sha_round st _ = st"

definition compress :: "sha_state \<Rightarrow> byte list \<Rightarrow> sha_state" where
  "compress st blk = map2 (+) st (foldl sha_round st (zip K256 (schedule blk)))"

definition sha256 :: "byte list \<Rightarrow> byte list" where
  "sha256 m =
     concat (map word_bytes (foldl compress H256 (sha_blocks (sha_pad m))))"

text \<open>\<^verbatim>\<open>.hexdigest()\<close>: two lowercase hexadecimal digits for each byte.\<close>

definition hex_char :: "nat \<Rightarrow> char" where
  "hex_char n = (if n < 10 then char_of (48 + n) else char_of (87 + n))"

definition hexlify :: "byte list \<Rightarrow> string" where
  "hexlify bs = concat (map (\<lambda>b. [hex_char (unat b div 16), hex_char (unat b mod 16)]) bs)"

subsection \<open>\<^verbatim>\<open>int(x, 16)\<close>\<close>

text \<open>
  The whitespace that \<^verbatim>\<open>int\<close> strips from both ends of a \<^verbatim>\<open>str\<close>: the ASCII
  whitespace, and of the code points from 128 to 255 the two that Unicode counts as
  whitespace (133 and 160).
\<close>

definition int_isspace :: "char \<Rightarrow> bool" where
  "int_isspace c = (let k = (of_char c :: nat) in py_isspace c \<or> k = 133 \<or> k = 160)"

text \<open>
  The digits of the literal: hexadecimal digits with single underscores between them.
  The scan stops at the first character that is neither; two underscores in a row, or an
  underscore at the end of the digits, are errors (\<open>None\<close>). \<open>us\<close> tells whether the
  previous character was an underscore.
\<close>

fun scan16 :: "bool \<Rightarrow> int \<Rightarrow> string \<Rightarrow> (int \<times> string) option" where
  "scan16 us acc [] = (if us then None else Some (acc, []))"
| "scan16 us acc (c # cs) =
     (if c = CHR ''_'' then (if us then None else scan16 True acc cs)
      else
        (case hex_digit c of
           Some d \<Rightarrow> scan16 False (16 * acc + int d) cs
         | None \<Rightarrow> (if us then None else Some (acc, c # cs))))"

text \<open>An optional sign, then an optional \<^verbatim>\<open>0x\<close> or \<^verbatim>\<open>0X\<close> with one optional underscore.\<close>

definition strip_sign :: "string \<Rightarrow> bool \<times> string" where
  "strip_sign t =
     (case t of
        [] \<Rightarrow> (False, [])
      | c # cs \<Rightarrow>
          if c = CHR ''+'' then (False, cs)
          else if c = CHR ''-'' then (True, cs)
          else (False, t))"

definition strip_0x :: "string \<Rightarrow> string" where
  "strip_0x u =
     (case u of
        a # b # cs \<Rightarrow>
          if a = CHR ''0'' \<and> (b = CHR ''x'' \<or> b = CHR ''X'')
          then (case cs of [] \<Rightarrow> [] | c # ds \<Rightarrow> if c = CHR ''_'' then ds else cs)
          else u
      | _ \<Rightarrow> u)"

text \<open>
  \<^verbatim>\<open>int(x, 16)\<close> for a \<^verbatim>\<open>str\<close>: the digits must start with a digit (not an underscore),
  and only whitespace may follow them; every other text raises \<^verbatim>\<open>ValueError\<close>.
\<close>

definition py_int16 :: "string \<Rightarrow> exn + int" where
  "py_int16 x =
     (case strip_sign (dropWhile int_isspace x) of
        (neg, u) \<Rightarrow>
          (case strip_0x u of
             [] \<Rightarrow> Inl ValueError
           | c # cs \<Rightarrow>
               if hex_digit c = None then Inl ValueError
               else
                 (case scan16 False 0 (c # cs) of
                    None \<Rightarrow> Inl ValueError
                  | Some (m, rest) \<Rightarrow>
                      if list_all int_isspace rest then Inr (if neg then - m else m)
                      else Inl ValueError)))"

section \<open>\<^verbatim>\<open>calculate_z\<close> (lines 7 to 9)\<close>

text \<open>
  \<^verbatim>\<open>return hashlib.sha256(bytes.fromhex(txid)).hexdigest()\<close>: the exception of
  \<^verbatim>\<open>bytes.fromhex\<close> is not caught here, so it is the result.
\<close>

definition calculate_z :: "string \<Rightarrow> exn + string" where
  "calculate_z txid =
     (case fromhex txid of Inl e \<Rightarrow> Inl e | Inr bs \<Rightarrow> Inr (hexlify (sha256 bs)))"

section \<open>The \<^verbatim>\<open>ecdsa\<close> library\<close>

text \<open>
  The script imports \<^verbatim>\<open>SECP256k1\<close>, \<^verbatim>\<open>util\<close>, \<^verbatim>\<open>verify\<close> and \<^verbatim>\<open>BadSignatureError\<close> from the
  \<^verbatim>\<open>ecdsa\<close> package, which is not part of the repository. What the script uses of it is
  a parameter of the model: the outcome of \<^verbatim>\<open>SECP256k1.curve.order()\<close>, the function
  \<^verbatim>\<open>util.string_to_number\<close> and the function \<^verbatim>\<open>verify\<close>. Each call either returns or
  raises; the calls are taken to be deterministic, to terminate, and \<^verbatim>\<open>verify\<close> to return
  a \<^verbatim>\<open>bool\<close>. Whether the installed package provides these names, and what its
  \<^verbatim>\<open>verify\<close> computes, is not decided here: a call the package cannot serve is the
  outcome \<open>Inl\<close> of that call.
\<close>

record ecdsa_lib =
  curve_order :: "exn + int"
  string_to_number :: "byte list \<Rightarrow> exn + int"
  lib_verify :: "int \<times> int \<Rightarrow> int \<Rightarrow> int \<Rightarrow> exn + bool"

section \<open>Effects\<close>

text \<open>
  What the script prints, line by line. The wording of a line is presentation; the model
  keeps which line it is and the values formatted into it:
  \<^item> \<open>Error_line e\<close> is line 29, the text of line 29 followed by \<^verbatim>\<open>str(e)\<close>;
  \<^item> \<open>Header_line\<close>, \<open>R_line\<close>, \<open>S_line\<close>, \<open>Z_line\<close>, \<open>Low_S_line\<close>, \<open>N_line\<close> are lines
    76 to 81;
  \<^item> \<open>Valid_line\<close> and \<open>Invalid_line\<close> are lines 86 and 88, \<open>Separator_line\<close> is line 90.
\<close>

datatype line =
    Error_line exn
  | Header_line string
  | R_line int
  | S_line int
  | Z_line int
  | Low_S_line bool
  | N_line int
  | Valid_line
  | Invalid_line
  | Separator_line

text \<open>
  The effects of a run, in order: a line printed, or a call of the library's
  \<^verbatim>\<open>verify\<close> with its three arguments (the signature pair, the digest, the public key).
\<close>

datatype event = Printed line | Verify_called "int \<times> int" int int

fun printed :: "event list \<Rightarrow> line list" where
  "printed [] = []"
| "printed (Printed l # evs) = l # printed evs"
| "printed (Verify_called sg z q # evs) = printed evs"

fun verify_calls :: "event list \<Rightarrow> ((int \<times> int) \<times> int \<times> int) list" where
  "verify_calls [] = []"
| "verify_calls (Printed l # evs) = verify_calls evs"
| "verify_calls (Verify_called sg z q # evs) = (sg, z, q) # verify_calls evs"

text \<open>
  A computation returns a value or raises, and leaves its effects behind.
\<close>

type_synonym 'a comp = "(exn + 'a) \<times> event list"

text \<open>
  \<^verbatim>\<open>try: ... except C1: ... except C2 as e: ...\<close>. A handler is the test
  \<^verbatim>\<open>isinstance(e, C)\<close> and its body. The first handler whose class matches runs; an
  exception that no handler matches propagates.
\<close>

fun try_except :: "'a comp \<Rightarrow> ((exn \<Rightarrow> bool) \<times> (exn \<Rightarrow> 'a comp)) list \<Rightarrow> 'a comp" where
  "try_except (Inr v, evs) hs = (Inr v, evs)"
| "try_except (Inl e, evs) [] = (Inl e, evs)"
| "try_except (Inl e, evs) ((c, h) # hs) =
     (if c e then (case h e of (res, evs') \<Rightarrow> (res, evs @ evs'))
      else try_except (Inl e, evs) hs)"

definition is_BadSignatureError :: "exn \<Rightarrow> bool" where
  "is_BadSignatureError e = (e = BadSignatureError)"

text \<open>Every exception of the model is an instance of \<^verbatim>\<open>Exception\<close>.\<close>

definition is_Exception :: "exn \<Rightarrow> bool" where
  "is_Exception e = True"

section \<open>\<^verbatim>\<open>verify_signature\<close> (lines 12 to 30)\<close>

text \<open>
  The body of the \<^verbatim>\<open>try\<close> (lines 15 to 24). The curve order comes from the library, not
  from the argument \<open>n\<close>, which the function never reads. The range check returns
  \<^verbatim>\<open>False\<close> before the identifier is decoded. \<open>pubkey_of\<close> is line 23,
  \<^verbatim>\<open>util.string_to_number(bytes.fromhex(txid))\<close>: its value is passed to \<^verbatim>\<open>verify\<close> as the
  public key.
\<close>

definition pubkey_of :: "ecdsa_lib \<Rightarrow> string \<Rightarrow> exn + int" where
  "pubkey_of L txid =
     (case fromhex txid of Inl e \<Rightarrow> Inl e | Inr bs \<Rightarrow> string_to_number L bs)"

definition verify_signature_body ::
  "ecdsa_lib \<Rightarrow> string \<Rightarrow> int \<Rightarrow> int \<Rightarrow> int \<Rightarrow> int \<Rightarrow> bool comp" where
  "verify_signature_body L txid r s z n =
     (case curve_order L of
        Inl e \<Rightarrow> (Inl e, [])
      | Inr order \<Rightarrow>
          if \<not> ((0 < r \<and> r < order) \<and> (0 < s \<and> s < order)) then (Inr False, [])
          else
            (case pubkey_of L txid of
               Inl e \<Rightarrow> (Inl e, [])
             | Inr pubkey \<Rightarrow>
                 (lib_verify L (r, s) z pubkey, [Verify_called (r, s) z pubkey])))"

text \<open>
  The whole function: \<^verbatim>\<open>except BadSignatureError: return False\<close>, then
  \<^verbatim>\<open>except Exception as e:\<close> which prints line 29 and returns \<^verbatim>\<open>False\<close>.
\<close>

definition verify_signature ::
  "ecdsa_lib \<Rightarrow> string \<Rightarrow> int \<Rightarrow> int \<Rightarrow> int \<Rightarrow> int \<Rightarrow> bool comp" where
  "verify_signature L txid r s z n =
     try_except (verify_signature_body L txid r s z n)
       [(is_BadSignatureError, \<lambda>e. (Inr False, [])),
        (is_Exception, \<lambda>e. (Inr False, [Printed (Error_line e)]))]"

section \<open>The data and the loop (lines 33 to 90)\<close>

text \<open>A record of the list \<^verbatim>\<open>signatures\<close>: a dictionary with these six keys.\<close>

record sig_record =
  TXID :: string
  r_hex :: string
  s_hex :: string
  z_hex :: string
  Low_S :: bool
  n_hex :: string

definition signatures :: "sig_record list" where
  "signatures =
    [\<lparr>TXID = ''44b4cca7a2306c6af2a931a50f9138bf87bf13ba41cd5ce5b6239e930b34793e'',
      r_hex = ''0xfbc2b9a148f7c136fd5ab60d9a1317624d90630ccdf1b65562977f370d999841'',
      s_hex = ''0x3f598a19e8e4eefec27af6fb8765132b205f45445d4b3755235d232d6f2ee41c'',
      z_hex = ''0xbeb21d89f2ebdc645094135d999aa79d386711a6a5f0289eba893c5515a4856f'',
      Low_S = True,
      n_hex = ''0xfffffffffffffffffffffffffffffffebaaedce6af48a03bbfd25e8cd0364141''\<rparr>,
     \<lparr>TXID = ''44b4cca7a2306c6af2a931a50f9138bf87bf13ba41cd5ce5b6239e930b34793e'',
      r_hex = ''0x8ca2698b53fffcf9d064b1ca1313ff08e08e47d3bbb97a4f9d54dd0e3164af9a'',
      s_hex = ''0x65913d2b007ebedf451e0068b368a33ff0fdb9725370a8cecc34e2e8449f143c'',
      z_hex = ''0xbeb21d89f2ebdc645094135d999aa79d386711a6a5f0289eba893c5515a4856f'',
      Low_S = True,
      n_hex = ''0xfffffffffffffffffffffffffffffffebaaedce6af48a03bbfd25e8cd0364141''\<rparr>,
     \<lparr>TXID = ''44b4cca7a2306c6af2a931a50f9138bf87bf13ba41cd5ce5b6239e930b34793e'',
      r_hex = ''0xefe66ff0cc452d2dc373db4cf2fa848944e32dbfac6c46542d2ed03a22cbb081'',
      s_hex = ''0x1726f4b1dc28ca118aea9d6a4fc7f9345c6cb071b7cbd95b22456c45539cb5fa'',
      z_hex = ''0xbeb21d89f2ebdc645094135d999aa79d386711a6a5f0289eba893c5515a4856f'',
      Low_S = True,
      n_hex = ''0xfffffffffffffffffffffffffffffffebaaedce6af48a03bbfd25e8cd0364141''\<rparr>,
     \<lparr>TXID = ''44b4cca7a2306c6af2a931a50f9138bf87bf13ba41cd5ce5b6239e930b34793e'',
      r_hex = ''0x1e68b7d13178cd65061c2bb57623efb2f99be1577465a2ec0532f697113e4e34'',
      s_hex = ''0x16779876223604f100c9e444feea939aa828928dd2a67ca4a2ac1afe1edfa310'',
      z_hex = ''0xbeb21d89f2ebdc645094135d999aa79d386711a6a5f0289eba893c5515a4856f'',
      Low_S = True,
      n_hex = ''0xfffffffffffffffffffffffffffffffebaaedce6af48a03bbfd25e8cd0364141''\<rparr>]"

text \<open>
  The body of the loop (lines 70 to 90). The four conversions stand outside any
  \<^verbatim>\<open>try\<close>: a field that \<^verbatim>\<open>int(_, 16)\<close> rejects raises out of the loop before anything
  of the record is printed. The low-S line prints the stored flag.
\<close>

definition loop_body :: "ecdsa_lib \<Rightarrow> sig_record \<Rightarrow> unit comp" where
  "loop_body L sg =
     (case py_int16 (r_hex sg) of
        Inl e \<Rightarrow> (Inl e, [])
      | Inr r \<Rightarrow>
     (case py_int16 (s_hex sg) of
        Inl e \<Rightarrow> (Inl e, [])
      | Inr s \<Rightarrow>
     (case py_int16 (z_hex sg) of
        Inl e \<Rightarrow> (Inl e, [])
      | Inr z \<Rightarrow>
     (case py_int16 (n_hex sg) of
        Inl e \<Rightarrow> (Inl e, [])
      | Inr n \<Rightarrow>
          (let fields =
                 [Printed (Header_line (TXID sg)), Printed (R_line r), Printed (S_line s),
                  Printed (Z_line z), Printed (Low_S_line (Low_S sg)), Printed (N_line n)]
           in case verify_signature L (TXID sg) r s z n of
                (Inl e, evs) \<Rightarrow> (Inl e, fields @ evs)
              | (Inr valid_signature, evs) \<Rightarrow>
                  (Inr (),
                   fields @ evs @
                   [Printed (if valid_signature then Valid_line else Invalid_line),
                    Printed Separator_line]))))))"

text \<open>
  \<^verbatim>\<open>for signature in signatures:\<close> An exception that leaves the body ends the script:
  the records after it are never reached.
\<close>

fun main_loop :: "ecdsa_lib \<Rightarrow> sig_record list \<Rightarrow> unit comp" where
  "main_loop L [] = (Inr (), [])"
| "main_loop L (sg # sgs) =
     (case loop_body L sg of
        (Inl e, evs) \<Rightarrow> (Inl e, evs)
      | (Inr u, evs) \<Rightarrow> (case main_loop L sgs of (res, evs') \<Rightarrow> (res, evs @ evs')))"

section \<open>Reading the output\<close>

text \<open>The verdict lines of an output, and the low-S flags it reports, in order.\<close>

definition verdict_lines :: "line list \<Rightarrow> line list" where
  "verdict_lines ls = filter (\<lambda>l. l = Valid_line \<or> l = Invalid_line) ls"

fun reported_low_s :: "line list \<Rightarrow> bool list" where
  "reported_low_s [] = []"
| "reported_low_s (Low_S_line b # ls) = b # reported_low_s ls"
| "reported_low_s (l # ls) = reported_low_s ls"

text \<open>A record whose four numeric fields \<^verbatim>\<open>int(_, 16)\<close> accepts.\<close>

definition fields_parse :: "sig_record \<Rightarrow> bool" where
  "fields_parse sg =
     (\<not> isl (py_int16 (r_hex sg)) \<and> \<not> isl (py_int16 (s_hex sg)) \<and>
      \<not> isl (py_int16 (z_hex sg)) \<and> \<not> isl (py_int16 (n_hex sg)))"

text \<open>
  Whether the stored flag of a record is what \<open>s \<le> n/2\<close> gives for its \<open>s\<close> and
  \<open>n\<close> (for integers, \<open>s \<le> n div 2\<close>).
\<close>

definition flag_agrees :: "sig_record \<Rightarrow> bool" where
  "flag_agrees sg =
     (case (py_int16 (s_hex sg), py_int16 (n_hex sg)) of
        (Inr s, Inr n) \<Rightarrow> Low_S sg = (s \<le> n div 2)
      | _ \<Rightarrow> False)"



definition high_s_record :: sig_record where
  "high_s_record =
     (hd signatures)
       \<lparr>s_hex := ''0xfffffffffffffffffffffffffffffffebaaedce6af48a03bbfd25e8cd0364140''\<rparr>"

section \<open>A library to run the model with\<close>

text \<open>
  The order of the secp256k1 group, and \<^verbatim>\<open>util.string_to_number\<close> as the library documents
  it: \<^verbatim>\<open>int(binascii.hexlify(string), 16)\<close>, the bytes read as a big-endian number, which
  raises \<^verbatim>\<open>ValueError\<close> on the empty string.
\<close>

definition secp256k1_order :: int where
  "secp256k1_order = 0xFFFFFFFFFFFFFFFFFFFFFFFFFFFFFFFEBAAEDCE6AF48A03BBFD25E8CD0364141"

definition be_int :: "byte list \<Rightarrow> int" where
  "be_int bs = foldl (\<lambda>a b. 256 * a + uint b) 0 bs"

definition be_string_to_number :: "byte list \<Rightarrow> exn + int" where
  "be_string_to_number bs = (if bs = [] then Inl ValueError else Inr (be_int bs))"

text \<open>
  \<open>lib_answering res\<close> is a library with that order and that conversion whose
  \<^verbatim>\<open>verify\<close> ends every call with \<open>res\<close>. It serves to evaluate the model at concrete
  inputs; the theorems below hold for every library.
\<close>

definition lib_answering :: "exn + bool \<Rightarrow> ecdsa_lib" where
  "lib_answering res =
     \<lparr>curve_order = Inr secp256k1_order,
      string_to_number = be_string_to_number,
      lib_verify = (\<lambda>sg z q. res)\<rparr>"

section \<open>The low-S predicate\<close>

text \<open>
  Modelled from the spec: the predicate \<open>isLowS(s, n)\<close>, true iff \<open>s \<le> n/2\<close>. The
  script has no such function: it stores a flag in each record and prints it. For
  integers, \<open>s \<le> n/2\<close> is \<open>s \<le> n div 2\<close>.
\<close>

definition isLowS :: "int \<Rightarrow> int \<Rightarrow> bool" where
  "isLowS s n = (s \<le> n div 2)"

section \<open>Basic facts\<close>

lemma fromhex_zz: "fromhex ''zz'' = Inl ValueError"
  by (simp add: hex_digit_def py_isspace_def)

lemma fromhex_00: "fromhex ''00'' = Inr [0]"
  by (simp add: hex_digit_def py_isspace_def)

lemma printed_append: "printed (xs @ ys) = printed xs @ printed ys"
  by (induction xs rule: printed.induct) simp_all

lemma verify_calls_append: "verify_calls (xs @ ys) = verify_calls xs @ verify_calls ys"
  by (induction xs rule: verify_calls.induct) simp_all

text \<open>The body of the \<^verbatim>\<open>try\<close> prints nothing.\<close>

lemma body_prints_nothing: "printed (snd (verify_signature_body L txid r s z n)) = []"
  by (simp add: verify_signature_body_def split: sum.splits)

text \<open>The two handlers, case by case.\<close>

lemma verify_signature_cases:
  "verify_signature L txid r s z n =
     (case verify_signature_body L txid r s z n of
        (Inr b, evs) \<Rightarrow> (Inr b, evs)
      | (Inl e, evs) \<Rightarrow>
          if e = BadSignatureError then (Inr False, evs)
          else (Inr False, evs @ [Printed (Error_line e)]))"
  by (cases "verify_signature_body L txid r s z n" rule: prod.exhaust)
     (auto simp: verify_signature_def is_BadSignatureError_def is_Exception_def
           split: sum.splits)

text \<open>The argument \<open>n\<close> is never read.\<close>

lemma verify_signature_ignores_n:
  "verify_signature L txid r s z n = verify_signature L txid r s z n'"
  by (simp add: verify_signature_def verify_signature_body_def)

lemma lib_answering_simps:
  "curve_order (lib_answering res) = Inr secp256k1_order"
  "string_to_number (lib_answering res) = be_string_to_number"
  "lib_verify (lib_answering res) sg z q = res"
  by (simp_all add: lib_answering_def)

lemma pubkey_of_zz: "pubkey_of L ''zz'' = Inl ValueError"
  by (simp add: pubkey_of_def hex_digit_def py_isspace_def)

lemma pubkey_of_00: "pubkey_of (lib_answering res) ''00'' = Inr 0"
  by (simp add: pubkey_of_def hex_digit_def py_isspace_def lib_answering_simps
      be_string_to_number_def be_int_def)

section \<open>The range check\<close>

text \<open>
  Claim C2. Whenever \<open>r\<close> or \<open>s\<close> is outside the open interval from 0 to the curve
  order (so in particular when it is 0 or the order itself), \<^verbatim>\<open>verify_signature\<close>
  returns \<^verbatim>\<open>False\<close> at once: nothing is printed and the library's \<^verbatim>\<open>verify\<close> is not
  called, whatever the identifier, the digest and the argument \<open>n\<close> are. The order is
  the one the library gives.
\<close>

theorem verify_signature_out_of_range:
  assumes "curve_order L = Inr order"
    and "r \<le> 0 \<or> order \<le> r \<or> s \<le> 0 \<or> order \<le> s"
  shows "verify_signature L txid r s z n = (Inr False, [])"
  using assms by (auto simp: verify_signature_cases verify_signature_body_def)

theorem verify_signature_out_of_range_witness:
  "verify_signature (lib_answering (Inr True)) ''00'' 0 1 5 secp256k1_order = (Inr False, []) \<and>
   verify_signature (lib_answering (Inr True)) ''00'' 1 0 5 secp256k1_order = (Inr False, []) \<and>
   verify_signature (lib_answering (Inr True)) ''00'' secp256k1_order 1 5 secp256k1_order
     = (Inr False, []) \<and>
   verify_signature (lib_answering (Inr True)) ''00'' 1 secp256k1_order 5 secp256k1_order
     = (Inr False, []) \<and>
   verify_signature (lib_answering (Inr True)) ''00'' 1 1 5 secp256k1_order
     = (Inr True, [Verify_called (1, 1) 5 0])"
proof -
  let ?L = "lib_answering (Inr True)"
  have ord: "curve_order ?L = Inr secp256k1_order"
    by (simp add: lib_answering_simps)
  have "verify_signature ?L ''00'' 1 1 5 secp256k1_order = (Inr True, [Verify_called (1, 1) 5 0])"
    by (simp add: verify_signature_cases verify_signature_body_def lib_answering_simps
        pubkey_of_00 secp256k1_order_def)
  then show ?thesis
    using verify_signature_out_of_range [OF ord, of 0 1 "''00''" 5 secp256k1_order]
      verify_signature_out_of_range [OF ord, of 1 0 "''00''" 5 secp256k1_order]
      verify_signature_out_of_range [OF ord, of secp256k1_order 1 "''00''" 5 secp256k1_order]
      verify_signature_out_of_range [OF ord, of 1 secp256k1_order "''00''" 5 secp256k1_order]
    by simp
qed

text \<open>
  For every library, also one whose order cannot be had: \<^verbatim>\<open>verify\<close> is called only
  with \<open>r\<close> and \<open>s\<close> in range.
\<close>

lemma verify_reached_only_in_range:
  assumes "verify_calls (snd (verify_signature L txid r s z n)) \<noteq> []"
  shows "\<exists>order. curve_order L = Inr order \<and> 0 < r \<and> r < order \<and> 0 < s \<and> s < order"
  using assms
  by (auto simp: verify_signature_cases verify_signature_body_def verify_calls_append
           split: sum.splits if_splits)

section \<open>No exception leaves \<^verbatim>\<open>verify_signature\<close>\<close>

text \<open>
  Claim C10. For every library outcome and every identifier, \<open>r\<close>, \<open>s\<close>, \<open>z\<close> and
  \<open>n\<close>, \<^verbatim>\<open>verify_signature\<close> returns a boolean and never raises: an exception raised in
  its body, \<^verbatim>\<open>BadSignatureError\<close> or any other, becomes \<^verbatim>\<open>False\<close>, and a body that
  returns has its value returned.
\<close>

theorem verify_signature_never_raises:
  "fst (verify_signature L txid r s z n) =
     Inr (case fst (verify_signature_body L txid r s z n) of Inl e \<Rightarrow> False | Inr b \<Rightarrow> b)"
  by (cases "verify_signature_body L txid r s z n" rule: prod.exhaust)
     (auto simp: verify_signature_cases split: sum.splits)

theorem verify_signature_never_raises_witness:
  "fst (verify_signature (lib_answering (Inr True)) ''zz'' 1 1 5 0) = Inr False \<and>
   fst (verify_signature (lib_answering (Inl BadSignatureError)) ''00'' 1 1 5 0) = Inr False \<and>
   fst (verify_signature (lib_answering (Inl (Other_Exception ''overflow''))) ''00'' 1 1 5 0)
     = Inr False \<and>
   fst (verify_signature (lib_answering (Inr True)) ''00'' (- 1) 1 5 0) = Inr False \<and>
   fst (verify_signature (lib_answering (Inr True)) ''00'' 1 1 5 0) = Inr True"
  using verify_signature_never_raises [of "lib_answering (Inr True)" "''zz''" 1 1 5 0]
    verify_signature_never_raises [of "lib_answering (Inl BadSignatureError)" "''00''" 1 1 5 0]
    verify_signature_never_raises
      [of "lib_answering (Inl (Other_Exception ''overflow''))" "''00''" 1 1 5 0]
    verify_signature_never_raises [of "lib_answering (Inr True)" "''00''" "- 1" 1 5 0]
    verify_signature_never_raises [of "lib_answering (Inr True)" "''00''" 1 1 5 0]
  by (simp add: verify_signature_body_def lib_answering_simps pubkey_of_00 pubkey_of_zz
      secp256k1_order_def)

section \<open>What \<^verbatim>\<open>verify_signature\<close> prints\<close>

text \<open>
  Claim C7. An unexpected error and an invalid signature are told apart by what is
  printed. Take any run whose body raises an exception other than
  \<^verbatim>\<open>BadSignatureError\<close>, and any run whose body ends as an invalid signature
  (\<^verbatim>\<open>BadSignatureError\<close> raised, or \<^verbatim>\<open>False\<close> returned): both return \<^verbatim>\<open>False\<close>, the
  first prints the error line with the exception, the second prints nothing.
\<close>

theorem unexpected_error_is_told_apart:
  assumes "fst (verify_signature_body L1 txid1 r1 s1 z1 n1) = Inl e"
    and "e \<noteq> BadSignatureError"
    and "fst (verify_signature_body L2 txid2 r2 s2 z2 n2) = Inl BadSignatureError
         \<or> fst (verify_signature_body L2 txid2 r2 s2 z2 n2) = Inr False"
  shows "fst (verify_signature L1 txid1 r1 s1 z1 n1) = Inr False
       \<and> fst (verify_signature L2 txid2 r2 s2 z2 n2) = Inr False
       \<and> printed (snd (verify_signature L1 txid1 r1 s1 z1 n1)) = [Error_line e]
       \<and> printed (snd (verify_signature L2 txid2 r2 s2 z2 n2)) = []"
proof -
  obtain res1 evs1 where b1: "verify_signature_body L1 txid1 r1 s1 z1 n1 = (res1, evs1)"
    by (cases "verify_signature_body L1 txid1 r1 s1 z1 n1")
  obtain res2 evs2 where b2: "verify_signature_body L2 txid2 r2 s2 z2 n2 = (res2, evs2)"
    by (cases "verify_signature_body L2 txid2 r2 s2 z2 n2")
  have p1: "printed evs1 = []"
    using body_prints_nothing [of L1 txid1 r1 s1 z1 n1] by (simp add: b1)
  have p2: "printed evs2 = []"
    using body_prints_nothing [of L2 txid2 r2 s2 z2 n2] by (simp add: b2)
  from assms(1) b1 have r1: "res1 = Inl e" by simp
  from assms(3) b2 have r2: "res2 = Inl BadSignatureError \<or> res2 = Inr False" by simp
  have first: "verify_signature L1 txid1 r1 s1 z1 n1 = (Inr False, evs1 @ [Printed (Error_line e)])"
    using assms(2) by (simp add: verify_signature_cases b1 r1)
  have second: "verify_signature L2 txid2 r2 s2 z2 n2 = (Inr False, evs2)"
    using r2 by (auto simp: verify_signature_cases b2)
  show ?thesis
    by (simp add: first second printed_append p1 p2)
qed

theorem unexpected_error_is_told_apart_witness:
  "fst (verify_signature (lib_answering (Inl (Other_Exception ''overflow''))) ''00'' 1 1 5 0)
     = Inr False \<and>
   fst (verify_signature (lib_answering (Inr False)) ''00'' 1 1 5 0) = Inr False \<and>
   printed (snd (verify_signature (lib_answering (Inl (Other_Exception ''overflow''))) ''00'' 1 1 5 0))
     = [Error_line (Other_Exception ''overflow'')] \<and>
   printed (snd (verify_signature (lib_answering (Inr False)) ''00'' 1 1 5 0)) = []"
proof -
  let ?L1 = "lib_answering (Inl (Other_Exception ''overflow''))"
  let ?L2 = "lib_answering (Inr False)"
  have h1: "fst (verify_signature_body ?L1 ''00'' 1 1 5 0) = Inl (Other_Exception ''overflow'')"
    by (simp add: verify_signature_body_def lib_answering_simps pubkey_of_00 secp256k1_order_def)
  have h2: "Other_Exception ''overflow'' \<noteq> BadSignatureError"
    by simp
  have h3: "fst (verify_signature_body ?L2 ''00'' 1 1 5 0) = Inl BadSignatureError
            \<or> fst (verify_signature_body ?L2 ''00'' 1 1 5 0) = Inr False"
    by (simp add: verify_signature_body_def lib_answering_simps pubkey_of_00 secp256k1_order_def)
  show ?thesis
    using unexpected_error_is_told_apart [OF h1 h2 h3] by simp
qed

text \<open>
  Claim C8, as the code has it. \<^verbatim>\<open>verify_signature\<close> keeps no state, and what it returns
  and prints is determined by its arguments and the library. It is silent except in one
  case: when its body raises an exception other than \<^verbatim>\<open>BadSignatureError\<close>, it prints
  the error line with that exception, once.
\<close>

theorem verify_signature_output:
  "printed (snd (verify_signature L txid r s z n)) =
     (case fst (verify_signature_body L txid r s z n) of
        Inl e \<Rightarrow> if e = BadSignatureError then [] else [Error_line e]
      | Inr b \<Rightarrow> [])"
proof -
  obtain res evs where b: "verify_signature_body L txid r s z n = (res, evs)"
    by (cases "verify_signature_body L txid r s z n")
  have p: "printed evs = []"
    using body_prints_nothing [of L txid r s z n] by (simp add: b)
  show ?thesis
    by (cases res) (simp_all add: verify_signature_cases b p printed_append)
qed

theorem verify_signature_output_witness:
  "printed (snd (verify_signature (lib_answering (Inr True)) ''00'' 1 1 5 0)) = [] \<and>
   printed (snd (verify_signature (lib_answering (Inl BadSignatureError)) ''00'' 1 1 5 0)) = [] \<and>
   printed (snd (verify_signature (lib_answering (Inr True)) [] 1 1 5 0))
     = [Error_line ValueError]"
proof -
  have e: "pubkey_of (lib_answering (Inr True)) [] = Inl ValueError"
    by (simp add: pubkey_of_def lib_answering_simps be_string_to_number_def)
  show ?thesis
    using verify_signature_output [of "lib_answering (Inr True)" "''00''" 1 1 5 0]
      verify_signature_output [of "lib_answering (Inl BadSignatureError)" "''00''" 1 1 5 0]
      verify_signature_output [of "lib_answering (Inr True)" "[]" 1 1 5 0]
    by (simp add: verify_signature_body_def lib_answering_simps pubkey_of_00 e
        secp256k1_order_def)
qed

text \<open>
  The claim as the spec states it (no output for any input) fails: a malformed
  identifier with \<open>r\<close> and \<open>s\<close> in range makes \<^verbatim>\<open>verify_signature\<close> print a line.
\<close>

theorem verify_signature_prints_counterexample:
  "printed (snd (verify_signature (lib_answering (Inr True)) ''zz'' 1 1 5 secp256k1_order))
     = [Error_line ValueError]"
  by (simp add: verify_signature_cases verify_signature_body_def lib_answering_simps
      pubkey_of_zz secp256k1_order_def)

section \<open>Low-S values\<close>

text \<open>
  Claim C9. For \<open>0 < s < n\<close>, exactly one of \<open>s\<close> and \<open>n - s\<close> is low-S, unless
  \<open>s\<close> is the boundary \<open>n/2\<close>, that is \<open>2 * s = n\<close>.
\<close>

theorem low_s_exactly_one:
  assumes "0 < s" and "s < n" and "2 * s \<noteq> n"
  shows "isLowS s n \<noteq> isLowS (n - s) n"
  using assms unfolding isLowS_def by presburger

theorem low_s_exactly_one_witness:
  "isLowS 1 secp256k1_order \<noteq> isLowS (secp256k1_order - 1) secp256k1_order \<and>
   isLowS 3 4 \<noteq> isLowS (4 - 3) 4"
proof -
  have a: "(0::int) < 1" "1 < secp256k1_order" "2 * 1 \<noteq> secp256k1_order"
    by (simp_all add: secp256k1_order_def)
  have b: "(0::int) < 3" "(3::int) < 4" "2 * 3 \<noteq> (4::int)"
    by simp_all
  show ?thesis
    using low_s_exactly_one [OF a] low_s_exactly_one [OF b] by simp
qed

section \<open>The loop\<close>

lemma verify_signature_returns:
  "\<exists>b evs. verify_signature L txid r s z n = (Inr b, evs)"
  by (cases "verify_signature_body L txid r s z n" rule: prod.exhaust)
     (auto simp: verify_signature_cases split: sum.splits)

lemma verify_signature_printed:
  "printed (snd (verify_signature L txid r s z n)) = []
   \<or> (\<exists>e. printed (snd (verify_signature L txid r s z n)) = [Error_line e])"
proof -
  obtain res evs where b: "verify_signature_body L txid r s z n = (res, evs)"
    by (cases "verify_signature_body L txid r s z n")
  have p: "printed evs = []"
    using body_prints_nothing [of L txid r s z n] by (simp add: b)
  show ?thesis
    by (cases res) (simp_all add: verify_signature_cases b p printed_append)
qed

lemma verdict_lines_append: "verdict_lines (xs @ ys) = verdict_lines xs @ verdict_lines ys"
  by (simp add: verdict_lines_def)

lemma reported_low_s_append: "reported_low_s (xs @ ys) = reported_low_s xs @ reported_low_s ys"
  by (induction xs rule: reported_low_s.induct) simp_all

lemma verify_signature_no_verdict:
  "verdict_lines (printed (snd (verify_signature L txid r s z n))) = []"
  using verify_signature_printed [of L txid r s z n] by (auto simp: verdict_lines_def)

lemma verify_signature_no_low_s:
  "reported_low_s (printed (snd (verify_signature L txid r s z n))) = []"
  using verify_signature_printed [of L txid r s z n] by auto

text \<open>\<^verbatim>\<open>int(_, 16)\<close> raises nothing but \<^verbatim>\<open>ValueError\<close>.\<close>

lemma py_int16_error: "py_int16 x = Inl e \<Longrightarrow> e = ValueError"
  by (auto simp: py_int16_def split: prod.splits list.splits if_splits option.splits)

text \<open>The output of the body for a record whose fields are numbers.\<close>

lemma loop_body_parsed:
  assumes "py_int16 (r_hex sg) = Inr r" "py_int16 (s_hex sg) = Inr s"
    "py_int16 (z_hex sg) = Inr z" "py_int16 (n_hex sg) = Inr n"
  shows "loop_body L sg =
     (Inr (),
      [Printed (Header_line (TXID sg)), Printed (R_line r), Printed (S_line s),
       Printed (Z_line z), Printed (Low_S_line (Low_S sg)), Printed (N_line n)]
      @ snd (verify_signature L (TXID sg) r s z n)
      @ [Printed (if fst (verify_signature L (TXID sg) r s z n) = Inr True
                  then Valid_line else Invalid_line),
         Printed Separator_line])"
proof -
  obtain b evs where v: "verify_signature L (TXID sg) r s z n = (Inr b, evs)"
    using verify_signature_returns by blast
  show ?thesis
    using assms by (simp add: loop_body_def v)
qed

lemma loop_body_ok:
  assumes "fields_parse sg"
  shows "\<exists>evs. loop_body L sg = (Inr (), evs)
            \<and> length (verdict_lines (printed evs)) = 1
            \<and> reported_low_s (printed evs) = [Low_S sg]"
proof -
  from assms obtain r s z n where
    f: "py_int16 (r_hex sg) = Inr r" "py_int16 (s_hex sg) = Inr s"
       "py_int16 (z_hex sg) = Inr z" "py_int16 (n_hex sg) = Inr n"
    unfolding fields_parse_def
    by (metis sum.collapse(2))
  show ?thesis
    by (simp add: loop_body_parsed [OF f] printed_append verdict_lines_def
        reported_low_s_append verify_signature_no_verdict [unfolded verdict_lines_def]
        verify_signature_no_low_s)
qed

lemma loop_body_fail:
  assumes "\<not> fields_parse sg"
  shows "loop_body L sg = (Inl ValueError, [])"
  using assms unfolding fields_parse_def loop_body_def
  by (auto split: sum.splits dest: py_int16_error simp: isl_def)

lemma main_loop_completes:
  assumes "list_all fields_parse batch"
  shows "\<exists>evs. main_loop L batch = (Inr (), evs)
            \<and> length (verdict_lines (printed evs)) = length batch"
  using assms
proof (induction batch)
  case Nil
  then show ?case by (simp add: verdict_lines_def)
next
  case (Cons sg sgs)
  then obtain evs' where t: "main_loop L sgs = (Inr (), evs')"
    "length (verdict_lines (printed evs')) = length sgs"
    by auto
  from Cons.prems obtain evs where h: "loop_body L sg = (Inr (), evs)"
    "length (verdict_lines (printed evs)) = 1"
    using loop_body_ok [of sg L] by auto
  show ?case
    by (simp add: h t printed_append verdict_lines_append)
qed

lemmas parse_defs = py_int16_def strip_sign_def strip_0x_def int_isspace_def py_isspace_def
  hex_digit_def

lemma signatures_parse: "list_all fields_parse signatures"
  by (simp add: signatures_def fields_parse_def parse_defs)








section \<open>The low-S flag of the report\<close>

lemma main_loop_low_s:
  assumes "main_loop L batch = (Inr (), evs)"
  shows "reported_low_s (printed evs) = map Low_S batch"
  using assms
proof (induction batch arbitrary: evs)
  case Nil
  then show ?case by simp
next
  case (Cons sg sgs)
  have p: "fields_parse sg"
  proof (rule ccontr)
    assume "\<not> fields_parse sg"
    then have "loop_body L sg = (Inl ValueError, [])" by (rule loop_body_fail)
    with Cons.prems show False by simp
  qed
  then obtain evs1 where h: "loop_body L sg = (Inr (), evs1)"
    "reported_low_s (printed evs1) = [Low_S sg]"
    using loop_body_ok [of sg L] by auto
  obtain res evs2 where t: "main_loop L sgs = (res, evs2)"
    by (cases "main_loop L sgs")
  from Cons.prems h t have "res = Inr ()" "evs = evs1 @ evs2"
    by simp_all
  with Cons.IH [of evs2] t h show ?case
    by (simp add: printed_append reported_low_s_append)
qed

lemma signatures_flags_agree: "list_all flag_agrees signatures"
  by (simp add: signatures_def flag_agrees_def parse_defs)

text \<open>
  Claim C3, as the code has it. The script computes no low-S check. In every run of the
  loop that reaches its end, the low-S flags printed are the stored \<^verbatim>\<open>Low-S?\<close> fields of
  the records, in order, whatever their \<open>s\<close> and \<open>n\<close> are. For the four records of
  the script's list the stored flag is \<^verbatim>\<open>True\<close> and is what \<open>s \<le> n/2\<close> gives.
\<close>

theorem reported_low_s_is_the_stored_flag:
  "(main_loop L batch = (Inr (), evs) \<longrightarrow> reported_low_s (printed evs) = map Low_S batch)
   \<and> list_all flag_agrees signatures
   \<and> map Low_S signatures = [True, True, True, True]"
  by (simp add: main_loop_low_s signatures_flags_agree) (simp add: signatures_def)

theorem reported_low_s_is_the_stored_flag_witness:
  "fst (main_loop (lib_answering (Inr False)) signatures) = Inr () \<and>
   reported_low_s (printed (snd (main_loop (lib_answering (Inr False)) signatures)))
     = [True, True, True, True]"
proof -
  obtain evs where e: "main_loop (lib_answering (Inr False)) signatures = (Inr (), evs)"
    using main_loop_completes [OF signatures_parse] by blast
  show ?thesis
    using reported_low_s_is_the_stored_flag [of "lib_answering (Inr False)" signatures evs] e
    by simp
qed

text \<open>
  The claim as the spec states it (the flag is true iff \<open>s \<le> n/2\<close>, for every \<open>s\<close>
  and \<open>n\<close>) fails: for a record with \<open>s = n - 1\<close> and the stored flag \<^verbatim>\<open>True\<close> the
  script reports \<^verbatim>\<open>True\<close>.
\<close>

theorem reported_low_s_counterexample:
  "main_loop (lib_answering (Inr False)) [high_s_record] =
     (Inr (),
      [Printed (Header_line ''44b4cca7a2306c6af2a931a50f9138bf87bf13ba41cd5ce5b6239e930b34793e''),
       Printed (R_line 0xfbc2b9a148f7c136fd5ab60d9a1317624d90630ccdf1b65562977f370d999841),
       Printed (S_line (secp256k1_order - 1)),
       Printed (Z_line 0xbeb21d89f2ebdc645094135d999aa79d386711a6a5f0289eba893c5515a4856f),
       Printed (Low_S_line True),
       Printed (N_line secp256k1_order),
       Verify_called
         (0xfbc2b9a148f7c136fd5ab60d9a1317624d90630ccdf1b65562977f370d999841, secp256k1_order - 1)
         0xbeb21d89f2ebdc645094135d999aa79d386711a6a5f0289eba893c5515a4856f
         0x44b4cca7a2306c6af2a931a50f9138bf87bf13ba41cd5ce5b6239e930b34793e,
       Printed Invalid_line,
       Printed Separator_line])
   \<and> \<not> secp256k1_order - 1 \<le> secp256k1_order div 2"
  by (simp add: loop_body_def high_s_record_def signatures_def parse_defs
      verify_signature_cases verify_signature_body_def lib_answering_simps pubkey_of_def
      be_string_to_number_def be_int_def secp256k1_order_def)

section \<open>Digests\<close>

text \<open>A SHA-256 digest has 32 bytes, whatever the message.\<close>

lemma length_sha_round: "length (sha_round st kw) = length st"
  by (cases "(st, kw)" rule: sha_round.cases) (simp_all add: Let_def)

lemma length_rounds: "length (foldl sha_round st kws) = length st"
  by (induction kws arbitrary: st) (simp_all add: length_sha_round)

lemma length_compress: "length (compress st blk) = length st"
  by (simp add: compress_def length_rounds)

lemma length_blocks: "length (foldl compress st blks) = length st"
  by (induction blks arbitrary: st) (simp_all add: length_compress)

lemma length_concat_word_bytes: "length (concat (map word_bytes ws)) = 4 * length ws"
  by (induction ws) (simp_all add: word_bytes_def)

lemma length_sha256: "length (sha256 m) = 32"
  by (simp add: sha256_def length_concat_word_bytes length_blocks H256_def)

text \<open>
  The hexadecimal text of a byte string, read back by \<^verbatim>\<open>int(_, 16)\<close>, is the big-endian
  number of the bytes.
\<close>

lemma length_hexlify: "length (hexlify bs) = 2 * length bs"
  by (induction bs) (simp_all add: hexlify_def)

lemma of_char_hex_char:
  "n < 16 \<Longrightarrow> (of_char (hex_char n) :: nat) = (if n < 10 then 48 + n else 87 + n)"
  by (simp add: hex_char_def)

lemma hex_digit_hex_char: "n < 16 \<Longrightarrow> hex_digit (hex_char n) = Some n"
  by (auto simp: hex_digit_def of_char_hex_char Let_def)

lemma hex_char_is_digit: "n < 16 \<Longrightarrow> hex_digit c = None \<Longrightarrow> hex_char n \<noteq> c"
  using hex_digit_hex_char [of n] by auto

lemma hex_char_plain:
  assumes "n < 16"
  shows "hex_char n \<noteq> CHR ''_''" "hex_char n \<noteq> CHR ''+''" "hex_char n \<noteq> CHR ''-''"
    "hex_char n \<noteq> CHR ''x''" "hex_char n \<noteq> CHR ''X''" "\<not> int_isspace (hex_char n)"
  using assms
  by (simp_all add: hex_char_is_digit hex_digit_def int_isspace_def py_isspace_def
      of_char_hex_char)

lemma nibbles: "unat (b :: byte) div 16 < 16" "unat b mod 16 < 16"
proof -
  have "unat b < 2 ^ LENGTH(8)" by (rule unsigned_less)
  then have "unat b < 256" by simp
  then show "unat b div 16 < 16" by simp
  show "unat b mod 16 < 16" by simp
qed

lemma scan16_hexlify:
  "scan16 False acc (hexlify bs) = Some (foldl (\<lambda>a b. 256 * a + uint b) acc bs, [])"
proof (induction bs arbitrary: acc)
  case Nil
  then show ?case by (simp add: hexlify_def)
next
  case (Cons b bs)
  have h: "hexlify (b # bs) = hex_char (unat b div 16) # hex_char (unat b mod 16) # hexlify bs"
    by (simp add: hexlify_def)
  have v: "16 * (16 * acc + int (unat b div 16)) + int (unat b mod 16) = 256 * acc + uint b"
  proof -
    have n: "unat b div 16 * 16 + unat b mod 16 = unat b"
      by simp
    have "int (unat b div 16) * 16 + int (unat b mod 16)
          = int (unat b div 16 * 16 + unat b mod 16)"
      by (simp only: of_nat_add of_nat_mult of_nat_numeral)
    also have "\<dots> = int (unat b)"
      by (simp only: n)
    also have "\<dots> = uint b"
      by simp
    finally show ?thesis by (simp add: algebra_simps)
  qed
  show ?case
    by (simp only: h scan16.simps hex_char_plain(1) [OF nibbles(1)] hex_char_plain(1) [OF nibbles(2)]
        hex_digit_hex_char [OF nibbles(1)] hex_digit_hex_char [OF nibbles(2)]
        if_False option.case v Cons.IH foldl_Cons)
qed

lemma py_int16_hexlify:
  assumes "bs \<noteq> []"
  shows "py_int16 (hexlify bs) = Inr (be_int bs)"
proof -
  from assms obtain b bs' where bs: "bs = b # bs'" by (cases bs) auto
  let ?c = "hex_char (unat b div 16)" and ?d = "hex_char (unat b mod 16)"
  have h: "hexlify bs = ?c # ?d # hexlify bs'"
    by (simp add: bs hexlify_def)
  have 1: "dropWhile int_isspace (hexlify bs) = hexlify bs"
    by (simp add: h hex_char_plain(6) [OF nibbles(1)])
  have 2: "strip_sign (hexlify bs) = (False, hexlify bs)"
    by (simp add: h strip_sign_def hex_char_plain [OF nibbles(1)])
  have 3: "strip_0x (hexlify bs) = hexlify bs"
    by (simp add: h strip_0x_def hex_char_plain [OF nibbles(2)])
  have 4: "hex_digit ?c \<noteq> None"
    by (simp add: hex_digit_hex_char [OF nibbles(1)])
  have 5: "scan16 False 0 (?c # ?d # hexlify bs') = Some (be_int bs, [])"
    using scan16_hexlify [of 0 bs] by (simp add: h be_int_def)
  show ?thesis
    apply (simp only: py_int16_def 1 2 3 prod.case)
    apply (simp add: h 4 5 del: scan16.simps)
    done
qed

text \<open>
  \<^verbatim>\<open>bytes.fromhex\<close> raises nothing but \<^verbatim>\<open>ValueError\<close>, and on a text without whitespace
  it fails exactly when the text is not an even number of hexadecimal digits.
\<close>

lemma fromhex_error: "fromhex txid = Inl e \<Longrightarrow> e = ValueError"
  by (induction txid arbitrary: e rule: fromhex.induct)
     (auto split: if_splits option.splits sum.splits)

lemma fromhex_plain:
  assumes "list_all (\<lambda>c. \<not> py_isspace c) txid"
  shows "isl (fromhex txid) \<longleftrightarrow> \<not> (even (length txid) \<and> list_all (\<lambda>c. hex_digit c \<noteq> None) txid)"
  using assms
proof (induction txid rule: fromhex.induct)
  case 1
  then show ?case by simp
next
  case (2 c)
  then show ?case by simp
next
  case (3 c d cs)
  then have ns: "\<not> py_isspace c" "\<not> py_isspace d" "list_all (\<lambda>c. \<not> py_isspace c) cs"
    by simp_all
  show ?case
  proof (cases "hex_digit c")
    case None
    then show ?thesis using ns by simp
  next
    case (Some hi)
    note hc = this
    show ?thesis
    proof (cases "hex_digit d")
      case None
      then show ?thesis using ns hc by simp
    next
      case (Some lo)
      have "isl (fromhex cs) \<longleftrightarrow>
            \<not> (even (length cs) \<and> list_all (\<lambda>c. hex_digit c \<noteq> None) cs)"
        using "3.IH"(2) [OF ns(1) hc Some ns(3)] .
      then show ?thesis
        using ns hc Some by (simp split: sum.splits) (auto simp: isl_def)
    qed
  qed
qed


text \<open>
  The example of FIPS 180-4: the digest of the three bytes \<^verbatim>\<open>abc\<close>.
\<close>

lemma sha256_abc:
  "sha256 [0x61, 0x62, 0x63] =
     [0xBA, 0x78, 0x16, 0xBF, 0x8F, 0x01, 0xCF, 0xEA, 0x41, 0x41, 0x40, 0xDE, 0x5D, 0xAE, 0x22, 0x23,
      0xB0, 0x03, 0x61, 0xA3, 0x96, 0x17, 0x7A, 0x9C, 0xB4, 0x10, 0xFF, 0x61, 0xF2, 0x00, 0x15, 0xAD]"
  by code_simp

lemma hexdigest_abc:
  "hexlify (sha256 [0x61, 0x62, 0x63]) =
     ''ba7816bf8f01cfea414140de5dae2223b00361a396177a9cb410ff61f20015ad''"
  unfolding sha256_abc by code_simp

lemma fromhex_abc: "fromhex ''616263'' = Inr [0x61, 0x62, 0x63]"
  by (simp add: hex_digit_def py_isspace_def)

lemma fromhex_abc_space: "fromhex ''616263 '' = Inr [0x61, 0x62, 0x63]"
  by (simp add: hex_digit_def py_isspace_def)

text \<open>
  Claim C5, as the code has it. \<^verbatim>\<open>calculate_z\<close> returns the SHA-256 digest of the bytes
  decoded from the identifier as a text of 64 hexadecimal digits, not as an integer; read
  in base 16 that text is the digest as an unsigned big-endian integer. It fails, with
  \<^verbatim>\<open>ValueError\<close>, exactly when \<^verbatim>\<open>bytes.fromhex\<close> rejects the identifier: for an
  identifier without whitespace, exactly when it is not an even number of hexadecimal
  digits. Whitespace between the bytes is skipped.
\<close>

theorem calculate_z_digest:
  "(fromhex txid = Inr bs \<longrightarrow>
      calculate_z txid = Inr (hexlify (sha256 bs)) \<and>
      length (hexlify (sha256 bs)) = 64 \<and>
      py_int16 (hexlify (sha256 bs)) = Inr (be_int (sha256 bs)))
   \<and> (isl (fromhex txid) \<longrightarrow> calculate_z txid = Inl ValueError)
   \<and> (list_all (\<lambda>c. \<not> py_isspace c) txid \<longrightarrow>
        (calculate_z txid = Inl ValueError
         \<longleftrightarrow> \<not> (even (length txid) \<and> list_all (\<lambda>c. hex_digit c \<noteq> None) txid)))"
proof (intro conjI impI)
  assume f: "fromhex txid = Inr bs"
  show "calculate_z txid = Inr (hexlify (sha256 bs))"
    by (simp add: calculate_z_def f)
  show "length (hexlify (sha256 bs)) = 64"
    by (simp add: length_hexlify length_sha256)
  have "sha256 bs \<noteq> []"
    using length_sha256 [of bs] by auto
  then show "py_int16 (hexlify (sha256 bs)) = Inr (be_int (sha256 bs))"
    by (rule py_int16_hexlify)
next
  assume "isl (fromhex txid)"
  then obtain e where e: "fromhex txid = Inl e"
    by (auto simp: isl_def)
  then have "e = ValueError" by (rule fromhex_error)
  with e show "calculate_z txid = Inl ValueError"
    by (simp add: calculate_z_def)
next
  assume p: "list_all (\<lambda>c. \<not> py_isspace c) txid"
  have "calculate_z txid = Inl ValueError \<longleftrightarrow> isl (fromhex txid)"
    by (cases "fromhex txid") (auto simp: calculate_z_def dest: fromhex_error)
  then show "calculate_z txid = Inl ValueError
      \<longleftrightarrow> \<not> (even (length txid) \<and> list_all (\<lambda>c. hex_digit c \<noteq> None) txid)"
    using fromhex_plain [OF p] by simp
qed

theorem calculate_z_digest_witness:
  "calculate_z ''616263'' = Inr ''ba7816bf8f01cfea414140de5dae2223b00361a396177a9cb410ff61f20015ad''
   \<and> py_int16 ''ba7816bf8f01cfea414140de5dae2223b00361a396177a9cb410ff61f20015ad''
       = Inr 0xba7816bf8f01cfea414140de5dae2223b00361a396177a9cb410ff61f20015ad
   \<and> calculate_z ''61626'' = Inl ValueError
   \<and> calculate_z ''6162zz'' = Inl ValueError"
proof -
  have a: "calculate_z ''616263'' = Inr (hexlify (sha256 [0x61, 0x62, 0x63]))"
    "py_int16 (hexlify (sha256 [0x61, 0x62, 0x63])) = Inr (be_int (sha256 [0x61, 0x62, 0x63]))"
    using calculate_z_digest [of "''616263''" "[0x61, 0x62, 0x63]"] fromhex_abc by simp_all
  have v: "be_int (sha256 [0x61, 0x62, 0x63])
           = 0xba7816bf8f01cfea414140de5dae2223b00361a396177a9cb410ff61f20015ad"
    by (simp add: sha256_abc be_int_def)
  have b: "calculate_z ''61626'' = Inl ValueError"
    using calculate_z_digest [of "''61626''" "[]"] by (simp add: py_isspace_def)
  have c: "calculate_z ''6162zz'' = Inl ValueError"
    using calculate_z_digest [of "''6162zz''" "[]"] by (simp add: py_isspace_def hex_digit_def)
  from a b c v show ?thesis
    by (simp only: hexdigest_abc simp_thms)
qed

text \<open>
  The claim as the spec states it fails on the failure condition: an identifier of odd
  length that holds a character that is no hexadecimal digit is accepted when that
  character is whitespace after a byte.
\<close>

theorem calculate_z_counterexample:
  "calculate_z ''616263 '' = Inr ''ba7816bf8f01cfea414140de5dae2223b00361a396177a9cb410ff61f20015ad''
   \<and> odd (length ''616263 '')
   \<and> \<not> list_all (\<lambda>c. hex_digit c \<noteq> None) ''616263 ''"
  by (simp add: calculate_z_def fromhex_abc_space hexdigest_abc del: fromhex.simps)
     (simp add: hex_digit_def)

section \<open>The public key passed to \<^verbatim>\<open>verify\<close>\<close>

lemma verify_signature_events:
  "snd (verify_signature L txid r s z n) = []
   \<or> (\<exists>e. snd (verify_signature L txid r s z n) = [Printed (Error_line e)])
   \<or> (\<exists>q. pubkey_of L txid = Inr q \<and>
          (snd (verify_signature L txid r s z n) = [Verify_called (r, s) z q]
           \<or> (\<exists>e. snd (verify_signature L txid r s z n)
                  = [Verify_called (r, s) z q, Printed (Error_line e)])))"
  by (auto simp: verify_signature_cases verify_signature_body_def split: sum.splits)

text \<open>
  When every check passes, the result is the library's answer for the signature, the
  digest as given and that public key.
\<close>

lemma verify_signature_delegates:
  assumes "curve_order L = Inr order" and "0 < r" "r < order" "0 < s" "s < order"
    and "pubkey_of L txid = Inr q"
  shows "fst (verify_signature L txid r s z n)
         = Inr (case lib_verify L (r, s) z q of Inl e \<Rightarrow> False | Inr b \<Rightarrow> b)"
  using assms
  by (auto simp: verify_signature_cases verify_signature_body_def split: sum.splits)

text \<open>
  Claim C4, as the code has it. The public key that \<^verbatim>\<open>verify\<close> receives is
  \<^verbatim>\<open>util.string_to_number(bytes.fromhex(txid))\<close>: a function of the identifier alone
  (not of \<open>r\<close>, \<open>s\<close>, \<open>z\<close> or \<open>n\<close>), and an integer, not a curve point. No hash is
  applied to the identifier on the way: with the library's big-endian conversion the
  public key is the number that the identifier's bytes spell.
\<close>

theorem public_key_is_the_identifier_number:
  assumes "Verify_called sg z' q \<in> set (snd (verify_signature L txid r s z n))"
  shows "sg = (r, s) \<and> z' = z \<and> pubkey_of L txid = Inr q
       \<and> (string_to_number L = be_string_to_number \<longrightarrow>
            (\<exists>bs. fromhex txid = Inr bs \<and> bs \<noteq> [] \<and> q = be_int bs))"
proof -
  from assms verify_signature_events [of L txid r s z n]
  have a: "sg = (r, s) \<and> z' = z \<and> pubkey_of L txid = Inr q"
    by auto
  have "\<exists>bs. fromhex txid = Inr bs \<and> bs \<noteq> [] \<and> q = be_int bs"
    if "string_to_number L = be_string_to_number"
    using a that
    by (auto simp: pubkey_of_def be_string_to_number_def split: sum.splits if_splits)
  with a show ?thesis by simp
qed

theorem public_key_is_the_identifier_number_witness:
  "snd (verify_signature (lib_answering (Inr True)) ''616263'' 1 1 5 0)
     = [Verify_called (1, 1) 5 0x616263]
   \<and> pubkey_of (lib_answering (Inr True)) ''616263'' = Inr 0x616263
   \<and> fromhex ''616263'' = Inr [0x61, 0x62, 0x63]
   \<and> be_int [0x61, 0x62, 0x63] = 0x616263"
proof -
  let ?L = "lib_answering (Inr True)"
  have p: "pubkey_of ?L ''616263'' = Inr 0x616263"
    by (simp add: pubkey_of_def hex_digit_def py_isspace_def lib_answering_simps
        be_string_to_number_def be_int_def)
  have e: "snd (verify_signature ?L ''616263'' 1 1 5 0) = [Verify_called (1, 1) 5 0x616263]"
    by (simp add: verify_signature_cases verify_signature_body_def lib_answering_simps p
        secp256k1_order_def)
  have m: "Verify_called (1, 1) 5 0x616263 \<in> set (snd (verify_signature ?L ''616263'' 1 1 5 0))"
    by (simp only: e) simp
  have b: "be_int [0x61, 0x62, 0x63] = 0x616263"
    by (simp add: be_int_def)
  show ?thesis
    using public_key_is_the_identifier_number [OF m] e b fromhex_abc
    by (simp add: lib_answering_simps)
qed

text \<open>
  The claim as the spec states it (the key is derived by hashing the identifier) fails:
  for the identifier \<^verbatim>\<open>616263\<close> the key passed to \<^verbatim>\<open>verify\<close> is the number
  \<^verbatim>\<open>0x616263\<close> itself, whereas the SHA-256 digest of the identifier, which
  \<^verbatim>\<open>calculate_z\<close> computes, is another number.
\<close>

theorem public_key_is_not_a_hash_counterexample:
  "verify_calls (snd (verify_signature (lib_answering (Inr True)) ''616263'' 1 1 5 0))
     = [((1, 1), 5, 0x616263)]
   \<and> calculate_z ''616263''
       = Inr ''ba7816bf8f01cfea414140de5dae2223b00361a396177a9cb410ff61f20015ad''
   \<and> py_int16 ''ba7816bf8f01cfea414140de5dae2223b00361a396177a9cb410ff61f20015ad''
       \<noteq> Inr 0x616263"
proof -
  let ?L = "lib_answering (Inr True)"
  have p: "pubkey_of ?L ''616263'' = Inr 0x616263"
    by (simp add: pubkey_of_def hex_digit_def py_isspace_def lib_answering_simps
        be_string_to_number_def be_int_def)
  have e: "verify_calls (snd (verify_signature ?L ''616263'' 1 1 5 0)) = [((1, 1), 5, 0x616263)]"
    by (simp add: verify_signature_cases verify_signature_body_def lib_answering_simps p
        secp256k1_order_def)
  have c: "calculate_z ''616263''
       = Inr ''ba7816bf8f01cfea414140de5dae2223b00361a396177a9cb410ff61f20015ad''"
    by (simp only: calculate_z_def fromhex_abc sum.case hexdigest_abc)
  have d: "py_int16 ''ba7816bf8f01cfea414140de5dae2223b00361a396177a9cb410ff61f20015ad''
       \<noteq> Inr 0x616263"
    by (simp add: parse_defs)
  from e c d show ?thesis by (simp only: simp_thms)
qed

end
